theory Spec2Isabelle
  imports Complex_Main
begin

section \<open>The live session hook: data model\<close>

text \<open>
  The development embeds the hook \<open>useLiveSession\<close> of the repository. The hook keeps
  its state in React state cells (\<open>status\<close>, \<open>volume\<close>, \<open>isSpeaking\<close>) and in refs;
  every callback of the source becomes a function from the state before the call to the
  state after it. Objects of the browser (audio contexts, nodes, media streams, buffer
  sources, the channel) are identified by natural numbers handed out by a counter.
  Times on the audio clock and durations are real numbers; the rounding of the doubles
  the source computes with is not modelled. A callback that waits (\<open>await\<close>) is
  split at the wait into the part before and the part after, so that other callbacks
  can be placed between the two.
\<close>

datatype session_status = Disconnected | Connecting | Connected | Error

datatype role = User | Model

text \<open>One call of \<open>source.start(when)\<close> on a buffer source holding a decoded buffer.\<close>

record segment =
  source_id :: nat
  start_at :: real
  duration :: real

text \<open>
  The fields of \<open>serverContent\<close> the handler reads. Every access in the source goes
  through optional chaining, so a message without \<open>serverContent\<close> is the message with
  every field absent. \<open>inline_data\<close> is
  \<open>serverContent?.modelTurn?.parts?.[0]?.inlineData?.data\<close>.
\<close>

record message =
  input_transcription_text :: "string option"
  output_transcription_text :: "string option"
  turn_complete :: bool
  interrupted :: bool
  inline_data :: "string option"

text \<open>
  The state of one hook instance. The first group are the React state cells, the second
  the refs, in the order of the source. The last group is the world the hook acts on:
  the audio contexts that are open, the microphone streams whose tracks are live, the
  channels opened (the source never closes one), the requests for the microphone, the
  calls of \<open>saveTranscript\<close> with their arguments \<open>(role, text, sessionId)\<close>, the
  documents handed to the store by \<open>addDoc\<close> (role, text, session identifier), the
  calls of \<open>source.start\<close> and of \<open>source.stop\<close>, and the counter for fresh object
  identities.
\<close>

record hook_state =
  status :: session_status
  volume :: real
  is_speaking :: bool
  input_context_ref :: "nat option"
  output_context_ref :: "nat option"
  input_source_ref :: "nat option"
  processor_ref :: "nat option"
  output_gain_node_ref :: "nat option"
  analyzer_ref :: "nat option"
  next_start_time :: real
  active_sources :: "nat list"
  session_ref :: "nat option"
  stream_ref :: "nat option"
  current_input :: string
  current_output :: string
  session_id :: string
  raf_id :: "nat option"
  open_input_contexts :: "nat list"
  open_output_contexts :: "nat list"
  live_streams :: "nat list"
  opened_channels :: "nat list"
  mic_requests :: nat
  save_calls :: "(role \<times> string \<times> string) list"
  store_writes :: "(role \<times> string \<times> string) list"
  started :: "segment list"
  stopped :: "nat list"
  next_id :: nat

text \<open>
  A fresh hook: \<open>useState\<close> and \<open>useRef\<close> with their initial values; the session
  identifier is the first \<open>crypto.randomUUID()\<close>.
\<close>

definition init_state :: "string \<Rightarrow> hook_state" where
  "init_state uuid =
     \<lparr> status = Disconnected, volume = 0, is_speaking = False,
       input_context_ref = None, output_context_ref = None,
       input_source_ref = None, processor_ref = None,
       output_gain_node_ref = None, analyzer_ref = None,
       next_start_time = 0, active_sources = [],
       session_ref = None, stream_ref = None,
       current_input = [], current_output = [], session_id = uuid,
       raf_id = None,
       open_input_contexts = [], open_output_contexts = [], live_streams = [],
       opened_channels = [], mic_requests = 0, save_calls = [],
       store_writes = [], started = [], stopped = [], next_id = 0 \<rparr>"

text \<open>
  JavaScript truthiness of an optional string: \<open>undefined\<close> and the empty string are
  falsy. \<open>text_of\<close> is the string that is there.
\<close>

definition truthy :: "string option \<Rightarrow> bool" where
  "truthy x = (case x of None \<Rightarrow> False | Some t \<Rightarrow> t \<noteq> [])"

definition text_of :: "string option \<Rightarrow> string" where
  "text_of x = (case x of None \<Rightarrow> [] | Some t \<Rightarrow> t)"

section \<open>Transcript persistence\<close>

text \<open>
  \<open>String.prototype.trim\<close>. A character of the model is a code unit below 256; the
  white space and line terminators of JavaScript in that range are tab, line feed,
  vertical tab, form feed, carriage return, space and no-break space.
\<close>

definition is_js_space :: "char \<Rightarrow> bool" where
  "is_js_space c =
     (c \<in> set [CHR 0x09, CHR 0x0A, CHR 0x0B, CHR 0x0C, CHR 0x0D, CHR 0x20, CHR 0xA0])"

definition js_trim :: "string \<Rightarrow> string" where
  "js_trim t = rev (dropWhile is_js_space (rev (dropWhile is_js_space t)))"

text \<open>
  \<open>saveTranscript(role, text, sessionId)\<close> of the persistence module. The call is
  recorded with its arguments. The function returns without writing when
  \<open>!text || text.trim() === ''\<close>; otherwise it hands a document with the trimmed text
  to the store through \<open>addDoc\<close>, which is a persistence write. The function runs up
  to that call at once, so writes are issued in the order of the calls. It catches the
  failures of the store itself and never throws into the hook.
\<close>

definition save_transcript :: "role \<Rightarrow> string \<Rightarrow> string \<Rightarrow> hook_state \<Rightarrow> hook_state" where
  "save_transcript r t sid s =
     (let s1 = s\<lparr>save_calls := save_calls s @ [(r, t, sid)]\<rparr>
      in if t = [] \<or> js_trim t = [] then s1
         else s1\<lparr>store_writes := store_writes s1 @ [(r, js_trim t, sid)]\<rparr>)"

text \<open>
  The block \<open>if (currentInputRef.current) { saveTranscript('user', ...); ... = '' }\<close>
  and its twin for the model text. Both appear verbatim in the turn-completion step of
  \<open>onmessage\<close> and in \<open>cleanup\<close>.
\<close>

definition save_pending_input :: "hook_state \<Rightarrow> hook_state" where
  "save_pending_input s =
     (if current_input s \<noteq> []
      then (save_transcript User (current_input s) (session_id s) s)\<lparr>current_input := []\<rparr>
      else s)"

definition save_pending_output :: "hook_state \<Rightarrow> hook_state" where
  "save_pending_output s =
     (if current_output s \<noteq> []
      then (save_transcript Model (current_output s) (session_id s) s)\<lparr>current_output := []\<rparr>
      else s)"

section \<open>Teardown\<close>

text \<open>
  \<open>activeSourcesRef.current.forEach(source => { try { source.stop(); } catch (e) {} });
  activeSourcesRef.current.clear();\<close> The same two statements stand in \<open>cleanup\<close> and
  in the interruption step.
\<close>

definition stop_all_sources :: "hook_state \<Rightarrow> hook_state" where
  "stop_all_sources s =
     s\<lparr>stopped := stopped s @ active_sources s, active_sources := []\<rparr>"

text \<open>Closing the context a ref holds, and stopping the tracks of the stream held.\<close>

definition close_contexts :: "hook_state \<Rightarrow> hook_state" where
  "close_contexts s =
     s\<lparr>open_input_contexts :=
         (case input_context_ref s of
            None \<Rightarrow> open_input_contexts s
          | Some c \<Rightarrow> removeAll c (open_input_contexts s)),
       open_output_contexts :=
         (case output_context_ref s of
            None \<Rightarrow> open_output_contexts s
          | Some c \<Rightarrow> removeAll c (open_output_contexts s))\<rparr>"

definition stop_mic_stream :: "hook_state \<Rightarrow> hook_state" where
  "stop_mic_stream s =
     (case stream_ref s of
        None \<Rightarrow> s
      | Some st \<Rightarrow> s\<lparr>live_streams := removeAll st (live_streams s), stream_ref := None\<rparr>)"

text \<open>
  \<open>cleanup\<close>, which the hook returns as \<open>disconnect\<close>. The calls of
  \<open>disconnect()\<close> on the four audio nodes change nothing the model keeps and cannot
  throw; the node refs are not cleared. No statement of \<open>cleanup\<close> can throw: the only
  call that could, \<open>source.stop()\<close>, is wrapped in \<open>try\<close>/\<open>catch\<close>.
\<close>

definition cleanup :: "hook_state \<Rightarrow> hook_state" where
  "cleanup s =
     (let s1 = s\<lparr>session_ref := None\<rparr>;
          s2 = stop_all_sources s1;
          s3 = close_contexts s2;
          s4 = stop_mic_stream s3;
          s5 = s4\<lparr>raf_id := None\<rparr>;
          s6 = save_pending_input s5;
          s7 = save_pending_output s6
      in s7\<lparr>input_context_ref := None, output_context_ref := None,
             status := Disconnected, is_speaking := False, volume := 0\<rparr>)"

section \<open>Connecting\<close>

text \<open>
  What \<open>connect\<close> meets outside the hook: the credential \<open>process.env.API_KEY\<close>, the
  identifier \<open>crypto.randomUUID()\<close> returns, whether each \<open>AudioContext\<close> can be
  constructed, the average the analyser reports at the first run of \<open>updateVolume\<close>,
  and whether \<open>getUserMedia\<close> resolves. Creating the analyser, the gain node and
  the client object is taken to succeed.
\<close>

record connect_env =
  api_key :: "string option"
  random_uuid :: string
  input_context_ok :: bool
  output_context_ok :: bool
  analyser_average :: real
  microphone_ok :: bool

text \<open>The \<open>catch\<close> block of \<open>connect\<close>: \<open>setStatus('error'); cleanup();\<close>\<close>

definition connect_failed :: "hook_state \<Rightarrow> hook_state" where
  "connect_failed s = cleanup (s\<lparr>status := Error\<rparr>)"

text \<open>Step 1, first half: the 16 kHz input context.\<close>

definition create_input_context :: "hook_state \<Rightarrow> hook_state" where
  "create_input_context s =
     s\<lparr>input_context_ref := Some (next_id s),
       open_input_contexts := open_input_contexts s @ [next_id s],
       next_id := Suc (next_id s)\<rparr>"

text \<open>
  Step 1, second half, and steps 2 and 3: the 24 kHz output context, the analyser, the
  first run of \<open>updateVolume\<close> (which sets the volume to \<open>Math.min(1, average / 50)\<close>
  and requests an animation frame), and the gain node.
\<close>

definition create_output_chain :: "real \<Rightarrow> hook_state \<Rightarrow> hook_state" where
  "create_output_chain avg s =
     s\<lparr>output_context_ref := Some (next_id s),
       open_output_contexts := open_output_contexts s @ [next_id s],
       analyzer_ref := Some (next_id s + 1),
       volume := min 1 (avg / 50),
       raf_id := Some (next_id s + 2),
       output_gain_node_ref := Some (next_id s + 3),
       next_id := next_id s + 4\<rparr>"

text \<open>Step 4 when \<open>getUserMedia\<close> resolves: the stream is stored, its tracks are live.\<close>

definition store_mic_stream :: "hook_state \<Rightarrow> hook_state" where
  "store_mic_stream s =
     s\<lparr>stream_ref := Some (next_id s),
       live_streams := live_streams s @ [next_id s],
       next_id := Suc (next_id s)\<rparr>"

text \<open>
  Steps 5 and 6: \<open>ai.live.connect\<close> is called and the promise it returns is stored in
  \<open>sessionRef\<close> without being awaited, so a channel that fails to open does not reach
  the \<open>catch\<close> block; it reports through \<open>onerror\<close>.
\<close>

definition open_channel :: "hook_state \<Rightarrow> hook_state" where
  "open_channel s =
     s\<lparr>opened_channels := opened_channels s @ [next_id s],
       session_ref := Some (next_id s),
       next_id := Suc (next_id s)\<rparr>"

text \<open>
  \<open>connect\<close> up to \<open>await navigator.mediaDevices.getUserMedia\<close>. The result says
  whether the function is now waiting for the microphone (\<open>True\<close>) or has returned.
  While it waits, other callbacks of the hook can run.
\<close>

definition connect_begin :: "connect_env \<Rightarrow> hook_state \<Rightarrow> hook_state \<times> bool" where
  "connect_begin env s =
     (if \<not> truthy (api_key env) then (s\<lparr>status := Error\<rparr>, False)
      else
        let s1 = s\<lparr>session_id := random_uuid env\<rparr>;
            s2 = s1\<lparr>status := Connecting\<rparr>
        in if \<not> input_context_ok env then (connect_failed s2, False)
           else
             let s3 = create_input_context s2
             in if \<not> output_context_ok env then (connect_failed s3, False)
                else
                  let s4 = create_output_chain (analyser_average env) s3;
                      s5 = s4\<lparr>mic_requests := Suc (mic_requests s4)\<rparr>
                  in (s5, True))"

text \<open>
  \<open>connect\<close> from the moment the request for the microphone settles, in the state
  the hook is in by then: the \<open>catch\<close> block when it was refused, steps 4 to 6
  when it was granted.
\<close>

definition connect_resume :: "bool \<Rightarrow> hook_state \<Rightarrow> hook_state" where
  "connect_resume granted s =
     (if \<not> granted then connect_failed s else open_channel (store_mic_stream s))"

text \<open>\<open>connect\<close> when nothing else runs while it waits for the microphone.\<close>

definition connect :: "connect_env \<Rightarrow> hook_state \<Rightarrow> hook_state" where
  "connect env s =
     (case connect_begin env s of
        (s1, False) \<Rightarrow> s1
      | (s1, True) \<Rightarrow> connect_resume (microphone_ok env) s1)"

section \<open>Channel callbacks\<close>

text \<open>
  \<open>onopen\<close>: the status becomes connected; the capture nodes are created only when the
  input context and the stream are there.
\<close>

definition onopen :: "hook_state \<Rightarrow> hook_state" where
  "onopen s =
     (let s1 = s\<lparr>status := Connected\<rparr>
      in if input_context_ref s1 = None \<or> stream_ref s1 = None then s1
         else s1\<lparr>input_source_ref := Some (next_id s1),
                 processor_ref := Some (next_id s1 + 1),
                 next_id := next_id s1 + 2\<rparr>)"

definition onclose :: "hook_state \<Rightarrow> hook_state" where
  "onclose s = s\<lparr>status := Disconnected\<rparr>"

definition onerror :: "hook_state \<Rightarrow> hook_state" where
  "onerror s = s\<lparr>status := Error\<rparr>"

text \<open>Step 1 of \<open>onmessage\<close>: the transcription fragments are appended.\<close>

definition handle_transcription :: "message \<Rightarrow> hook_state \<Rightarrow> hook_state" where
  "handle_transcription m s =
     (let s1 = (if truthy (input_transcription_text m)
                then s\<lparr>current_input := current_input s @ text_of (input_transcription_text m)\<rparr>
                else s)
      in if truthy (output_transcription_text m)
         then s1\<lparr>current_output := current_output s1 @ text_of (output_transcription_text m)\<rparr>
         else s1)"

text \<open>Step 2: the body of \<open>if (serverContent?.turnComplete)\<close>.\<close>

definition handle_turn_complete :: "hook_state \<Rightarrow> hook_state" where
  "handle_turn_complete s =
     (save_pending_output (save_pending_input s))\<lparr>is_speaking := False\<rparr>"

text \<open>Step 3: the body of \<open>if (serverContent?.interrupted)\<close>, which ends in \<open>return\<close>.\<close>

definition handle_interruption :: "hook_state \<Rightarrow> hook_state" where
  "handle_interruption s =
     (let s1 = (if current_output s \<noteq> []
                then (save_transcript Model (current_output s @ '' [INTERRUPTED]'')
                        (session_id s) s)\<lparr>current_output := []\<rparr>
                else s)
      in (stop_all_sources s1)\<lparr>next_start_time := 0, is_speaking := False\<rparr>)"

text \<open>
  Step 4: the audio data. \<open>audio_ready\<close> is the guard
  \<open>base64Audio && outputContextRef.current && outputGainNodeRef.current\<close>. The step
  has two halves, with \<open>await decodeAudioData(...)\<close> between them. The first sets
  the speaking flag and moves the cursor to the clock reading \<open>now\<close>, the value of
  \<open>ctx.currentTime\<close>, when that is later. The second runs when decoding has
  produced a buffer of duration \<open>d\<close>: it reads the cursor again, starts the new
  source there, advances the cursor by \<open>d\<close> and adds the source to the set. Other
  callbacks can run between the two halves.
\<close>

definition audio_ready :: "message \<Rightarrow> hook_state \<Rightarrow> bool" where
  "audio_ready m s =
     (truthy (inline_data m) \<and> output_context_ref s \<noteq> None
      \<and> output_gain_node_ref s \<noteq> None)"

definition begin_audio :: "real \<Rightarrow> hook_state \<Rightarrow> hook_state" where
  "begin_audio now s =
     (let s1 = s\<lparr>is_speaking := True\<rparr>
      in s1\<lparr>next_start_time := max (next_start_time s1) now\<rparr>)"

definition finish_audio :: "real \<Rightarrow> hook_state \<Rightarrow> hook_state" where
  "finish_audio d s =
     s\<lparr>started := started s @
          [\<lparr>source_id = next_id s, start_at = next_start_time s, duration = d\<rparr>],
       next_start_time := next_start_time s + d,
       active_sources := active_sources s @ [next_id s],
       next_id := Suc (next_id s)\<rparr>"

text \<open>
  \<open>onmessage\<close> up to its end or up to the \<open>await\<close>: the state it leaves, and the
  audio data whose decoding it waits for, if it waits.
\<close>

definition onmessage_sync :: "real \<Rightarrow> message \<Rightarrow> hook_state \<Rightarrow> hook_state \<times> string option" where
  "onmessage_sync now m s =
     (let s1 = handle_transcription m s;
          s2 = (if turn_complete m then handle_turn_complete s1 else s1)
      in if interrupted m then (handle_interruption s2, None)
         else if audio_ready m s2 then (begin_audio now s2, Some (text_of (inline_data m)))
         else (s2, None))"

text \<open>
  The rest of the handler, in the state the hook is in when decoding settles: nothing
  when decoding threw (the promise of the handler rejects), the second half of step 4
  otherwise.
\<close>

definition onmessage_resume :: "real option \<Rightarrow> hook_state \<Rightarrow> hook_state" where
  "onmessage_resume r s = (case r of None \<Rightarrow> s | Some d \<Rightarrow> finish_audio d s)"

text \<open>
  The whole handler when nothing else runs while it waits. \<open>decode\<close> stands for
  \<open>decodeAudioData(base64ToUint8Array(...), ctx, 24000, 1)\<close> of the audio utilities
  and gives the duration of the decoded buffer, or \<open>None\<close> when decoding throws.
\<close>

definition onmessage ::
  "real \<Rightarrow> (string \<Rightarrow> real option) \<Rightarrow> message \<Rightarrow> hook_state \<Rightarrow> hook_state" where
  "onmessage now decode m s =
     (case onmessage_sync now m s of
        (s1, None) \<Rightarrow> s1
      | (s1, Some b) \<Rightarrow> onmessage_resume (decode b) s1)"

text \<open>
  \<open>source.onended\<close>: the source leaves the set; when the set is empty the speaking
  flag is cleared.
\<close>

definition onended :: "nat \<Rightarrow> hook_state \<Rightarrow> hook_state" where
  "onended src s =
     (let s1 = s\<lparr>active_sources := removeAll src (active_sources s)\<rparr>
      in if active_sources s1 = [] then s1\<lparr>is_speaking := False\<rparr> else s1)"

text \<open>
  What the event loop hands to the hook while a session plays: a message arrives (with
  the clock reading its handler will take), the decoding some handler waits for
  produces a buffer (with the clock reading at that moment, which the handler does not
  read, and the duration), a source ends, or the presentation layer calls
  \<open>disconnect()\<close>. A decoding that throws changes nothing and is no event.
\<close>

datatype event =
    Message real message
  | Decoded real real
  | Ended nat
  | Disconnect

fun step :: "event \<Rightarrow> hook_state \<Rightarrow> hook_state" where
  "step (Message now m) s = fst (onmessage_sync now m s)"
| "step (Decoded now d) s = onmessage_resume (Some d) s"
| "step (Ended src) s = onended src s"
| "step Disconnect s = cleanup s"

fun run_events :: "event list \<Rightarrow> hook_state \<Rightarrow> hook_state" where
  "run_events [] s = s"
| "run_events (e # es) s = run_events es (step e s)"

fun interrupts :: "event \<Rightarrow> bool" where
  "interrupts (Message now m) = interrupted m"
| "interrupts (Decoded now d) = False"
| "interrupts (Ended src) = False"
| "interrupts Disconnect = False"

fun decoded_duration :: "event \<Rightarrow> real" where
  "decoded_duration (Message now m) = 0"
| "decoded_duration (Decoded now d) = d"
| "decoded_duration (Ended src) = 0"
| "decoded_duration Disconnect = 0"

section \<open>Derived notions and sample runs\<close>

text \<open>
  The calls of \<open>saveTranscript\<close> that the two save blocks issue, one after the other, in
  a state: the user text first, then the model text, each only when it is not empty.
\<close>

definition pending_saves :: "hook_state \<Rightarrow> (role \<times> string \<times> string) list" where
  "pending_saves s =
     (if current_input s \<noteq> [] then [(User, current_input s, session_id s)] else []) @
     (if current_output s \<noteq> [] then [(Model, current_output s, session_id s)] else [])"

text \<open>
  The documents the two save blocks hand to the store in a state: a text that is empty
  or all white space gives none.
\<close>

definition pending_writes :: "hook_state \<Rightarrow> (role \<times> string \<times> string) list" where
  "pending_writes s =
     (if js_trim (current_input s) = [] then []
      else [(User, js_trim (current_input s), session_id s)]) @
     (if js_trim (current_output s) = [] then []
      else [(Model, js_trim (current_output s), session_id s)])"

text \<open>
  Concrete surroundings and messages for the sample runs: an environment in which every
  acquisition succeeds, the same with the next session identifier, one where the
  microphone is refused, one without the credential;
  a decoder that yields buffers of half a second and one of three tenths; a message with
  both transcriptions and audio, one whose user transcription is a single space, a
  barge-in message that also carries audio, a turn-complete message that also carries
  audio, a message that is both, and plain audio messages.
\<close>

definition granted_env :: connect_env where
  "granted_env =
     \<lparr>api_key = Some ''key'', random_uuid = ''session-1'', input_context_ok = True,
      output_context_ok = True, analyser_average = 0, microphone_ok = True\<rparr>"


definition mic_denied_env :: connect_env where
  "mic_denied_env = granted_env\<lparr>microphone_ok := False\<rparr>"

definition no_key_env :: connect_env where
  "no_key_env = granted_env\<lparr>api_key := None\<rparr>"

definition fresh_hook :: hook_state where
  "fresh_hook = init_state ''session-0''"

definition live_session :: hook_state where
  "live_session = onopen (connect granted_env fresh_hook)"

definition sample_decode :: "string \<Rightarrow> real option" where
  "sample_decode b = (if b = ''CCCC'' then Some (3 / 10) else Some (1 / 2))"

definition chatter :: message where
  "chatter =
     \<lparr>input_transcription_text = Some ''hello'',
      output_transcription_text = Some ''hi there'', turn_complete = False,
      interrupted = False, inline_data = Some ''AAAA''\<rparr>"

definition barge_in :: message where
  "barge_in =
     \<lparr>input_transcription_text = None, output_transcription_text = Some '' and'',
      turn_complete = False, interrupted = True, inline_data = Some ''BBBB''\<rparr>"

definition turn_end_with_audio :: message where
  "turn_end_with_audio =
     \<lparr>input_transcription_text = None, output_transcription_text = None,
      turn_complete = True, interrupted = False, inline_data = Some ''BBBB''\<rparr>"

definition audio_only :: "string \<Rightarrow> message" where
  "audio_only b =
     \<lparr>input_transcription_text = None, output_transcription_text = None,
      turn_complete = False, interrupted = False, inline_data = Some b\<rparr>"

definition murmur :: message where
  "murmur = chatter\<lparr>input_transcription_text := Some '' ''\<rparr>"

definition turn_end_barge_in :: message where
  "turn_end_barge_in = barge_in\<lparr>turn_complete := True\<rparr>"

definition talking_session :: hook_state where
  "talking_session = onmessage 0 sample_decode chatter live_session"

definition murmur_session :: hook_state where
  "murmur_session = onmessage 0 sample_decode murmur live_session"

section \<open>What each step does to each field\<close>

lemma truthy_text_of: "truthy x = (text_of x \<noteq> [])"
  by (simp add: truthy_def text_of_def split: option.splits)

lemma js_trim_Nil: "js_trim [] = []"
  by (simp add: js_trim_def)

text \<open>A text that ends in a character that is no white space keeps it when trimmed.\<close>

lemma js_trim_snoc:
  assumes "\<not> is_js_space c"
  shows "js_trim (xs @ [c]) = dropWhile is_js_space xs @ [c]"
proof -
  have "dropWhile is_js_space (xs @ [c]) = dropWhile is_js_space xs @ [c]"
    using assms by (simp add: dropWhile_append3)
  then show ?thesis
    using assms by (simp add: js_trim_def)
qed

lemma js_trim_marker: "js_trim (xs @ '' [INTERRUPTED]'') \<noteq> []"
proof -
  have "\<not> is_js_space CHR '']''" by (simp add: is_js_space_def)
  from js_trim_snoc [OF this, of "xs @ '' [INTERRUPTED''"] show ?thesis by simp
qed

lemma create_input_context_fields:
  "status (create_input_context s) = status s"
  "volume (create_input_context s) = volume s"
  "is_speaking (create_input_context s) = is_speaking s"
  "input_context_ref (create_input_context s) = Some (next_id s)"
  "output_context_ref (create_input_context s) = output_context_ref s"
  "input_source_ref (create_input_context s) = input_source_ref s"
  "processor_ref (create_input_context s) = processor_ref s"
  "output_gain_node_ref (create_input_context s) = output_gain_node_ref s"
  "analyzer_ref (create_input_context s) = analyzer_ref s"
  "next_start_time (create_input_context s) = next_start_time s"
  "active_sources (create_input_context s) = active_sources s"
  "session_ref (create_input_context s) = session_ref s"
  "stream_ref (create_input_context s) = stream_ref s"
  "current_input (create_input_context s) = current_input s"
  "current_output (create_input_context s) = current_output s"
  "session_id (create_input_context s) = session_id s"
  "raf_id (create_input_context s) = raf_id s"
  "open_input_contexts (create_input_context s) = open_input_contexts s @ [next_id s]"
  "open_output_contexts (create_input_context s) = open_output_contexts s"
  "live_streams (create_input_context s) = live_streams s"
  "opened_channels (create_input_context s) = opened_channels s"
  "mic_requests (create_input_context s) = mic_requests s"
  "save_calls (create_input_context s) = save_calls s"
  "store_writes (create_input_context s) = store_writes s"
  "started (create_input_context s) = started s"
  "stopped (create_input_context s) = stopped s"
  "next_id (create_input_context s) = Suc (next_id s)"
  by (simp_all add: create_input_context_def)

lemma create_output_chain_fields:
  "status (create_output_chain avg s) = status s"
  "volume (create_output_chain avg s) = min 1 (avg / 50)"
  "is_speaking (create_output_chain avg s) = is_speaking s"
  "input_context_ref (create_output_chain avg s) = input_context_ref s"
  "output_context_ref (create_output_chain avg s) = Some (next_id s)"
  "input_source_ref (create_output_chain avg s) = input_source_ref s"
  "processor_ref (create_output_chain avg s) = processor_ref s"
  "output_gain_node_ref (create_output_chain avg s) = Some (next_id s + 3)"
  "analyzer_ref (create_output_chain avg s) = Some (next_id s + 1)"
  "next_start_time (create_output_chain avg s) = next_start_time s"
  "active_sources (create_output_chain avg s) = active_sources s"
  "session_ref (create_output_chain avg s) = session_ref s"
  "stream_ref (create_output_chain avg s) = stream_ref s"
  "current_input (create_output_chain avg s) = current_input s"
  "current_output (create_output_chain avg s) = current_output s"
  "session_id (create_output_chain avg s) = session_id s"
  "raf_id (create_output_chain avg s) = Some (next_id s + 2)"
  "open_input_contexts (create_output_chain avg s) = open_input_contexts s"
  "open_output_contexts (create_output_chain avg s) = open_output_contexts s @ [next_id s]"
  "live_streams (create_output_chain avg s) = live_streams s"
  "opened_channels (create_output_chain avg s) = opened_channels s"
  "mic_requests (create_output_chain avg s) = mic_requests s"
  "save_calls (create_output_chain avg s) = save_calls s"
  "store_writes (create_output_chain avg s) = store_writes s"
  "started (create_output_chain avg s) = started s"
  "stopped (create_output_chain avg s) = stopped s"
  "next_id (create_output_chain avg s) = next_id s + 4"
  by (simp_all add: create_output_chain_def)

lemma store_mic_stream_fields:
  "status (store_mic_stream s) = status s"
  "volume (store_mic_stream s) = volume s"
  "is_speaking (store_mic_stream s) = is_speaking s"
  "input_context_ref (store_mic_stream s) = input_context_ref s"
  "output_context_ref (store_mic_stream s) = output_context_ref s"
  "input_source_ref (store_mic_stream s) = input_source_ref s"
  "processor_ref (store_mic_stream s) = processor_ref s"
  "output_gain_node_ref (store_mic_stream s) = output_gain_node_ref s"
  "analyzer_ref (store_mic_stream s) = analyzer_ref s"
  "next_start_time (store_mic_stream s) = next_start_time s"
  "active_sources (store_mic_stream s) = active_sources s"
  "session_ref (store_mic_stream s) = session_ref s"
  "stream_ref (store_mic_stream s) = Some (next_id s)"
  "current_input (store_mic_stream s) = current_input s"
  "current_output (store_mic_stream s) = current_output s"
  "session_id (store_mic_stream s) = session_id s"
  "raf_id (store_mic_stream s) = raf_id s"
  "open_input_contexts (store_mic_stream s) = open_input_contexts s"
  "open_output_contexts (store_mic_stream s) = open_output_contexts s"
  "live_streams (store_mic_stream s) = live_streams s @ [next_id s]"
  "opened_channels (store_mic_stream s) = opened_channels s"
  "mic_requests (store_mic_stream s) = mic_requests s"
  "save_calls (store_mic_stream s) = save_calls s"
  "store_writes (store_mic_stream s) = store_writes s"
  "started (store_mic_stream s) = started s"
  "stopped (store_mic_stream s) = stopped s"
  "next_id (store_mic_stream s) = Suc (next_id s)"
  by (simp_all add: store_mic_stream_def)

lemma open_channel_fields:
  "status (open_channel s) = status s"
  "volume (open_channel s) = volume s"
  "is_speaking (open_channel s) = is_speaking s"
  "input_context_ref (open_channel s) = input_context_ref s"
  "output_context_ref (open_channel s) = output_context_ref s"
  "input_source_ref (open_channel s) = input_source_ref s"
  "processor_ref (open_channel s) = processor_ref s"
  "output_gain_node_ref (open_channel s) = output_gain_node_ref s"
  "analyzer_ref (open_channel s) = analyzer_ref s"
  "next_start_time (open_channel s) = next_start_time s"
  "active_sources (open_channel s) = active_sources s"
  "session_ref (open_channel s) = Some (next_id s)"
  "stream_ref (open_channel s) = stream_ref s"
  "current_input (open_channel s) = current_input s"
  "current_output (open_channel s) = current_output s"
  "session_id (open_channel s) = session_id s"
  "raf_id (open_channel s) = raf_id s"
  "open_input_contexts (open_channel s) = open_input_contexts s"
  "open_output_contexts (open_channel s) = open_output_contexts s"
  "live_streams (open_channel s) = live_streams s"
  "opened_channels (open_channel s) = opened_channels s @ [next_id s]"
  "mic_requests (open_channel s) = mic_requests s"
  "save_calls (open_channel s) = save_calls s"
  "store_writes (open_channel s) = store_writes s"
  "started (open_channel s) = started s"
  "stopped (open_channel s) = stopped s"
  "next_id (open_channel s) = Suc (next_id s)"
  by (simp_all add: open_channel_def)

lemma onopen_fields:
  "status (onopen s) = Connected"
  "volume (onopen s) = volume s"
  "is_speaking (onopen s) = is_speaking s"
  "input_context_ref (onopen s) = input_context_ref s"
  "output_context_ref (onopen s) = output_context_ref s"
  "input_source_ref (onopen s) = (if input_context_ref s = None \<or> stream_ref s = None
       then input_source_ref s else Some (next_id s))"
  "processor_ref (onopen s) = (if input_context_ref s = None \<or> stream_ref s = None
       then processor_ref s else Some (next_id s + 1))"
  "output_gain_node_ref (onopen s) = output_gain_node_ref s"
  "analyzer_ref (onopen s) = analyzer_ref s"
  "next_start_time (onopen s) = next_start_time s"
  "active_sources (onopen s) = active_sources s"
  "session_ref (onopen s) = session_ref s"
  "stream_ref (onopen s) = stream_ref s"
  "current_input (onopen s) = current_input s"
  "current_output (onopen s) = current_output s"
  "session_id (onopen s) = session_id s"
  "raf_id (onopen s) = raf_id s"
  "open_input_contexts (onopen s) = open_input_contexts s"
  "open_output_contexts (onopen s) = open_output_contexts s"
  "live_streams (onopen s) = live_streams s"
  "opened_channels (onopen s) = opened_channels s"
  "mic_requests (onopen s) = mic_requests s"
  "save_calls (onopen s) = save_calls s"
  "store_writes (onopen s) = store_writes s"
  "started (onopen s) = started s"
  "stopped (onopen s) = stopped s"
  "next_id (onopen s) = (if input_context_ref s = None \<or> stream_ref s = None
       then next_id s else next_id s + 2)"
  by (simp_all add: onopen_def Let_def)

lemma save_pending_input_fields:
  "status (save_pending_input s) = status s"
  "volume (save_pending_input s) = volume s"
  "is_speaking (save_pending_input s) = is_speaking s"
  "input_context_ref (save_pending_input s) = input_context_ref s"
  "output_context_ref (save_pending_input s) = output_context_ref s"
  "input_source_ref (save_pending_input s) = input_source_ref s"
  "processor_ref (save_pending_input s) = processor_ref s"
  "output_gain_node_ref (save_pending_input s) = output_gain_node_ref s"
  "analyzer_ref (save_pending_input s) = analyzer_ref s"
  "next_start_time (save_pending_input s) = next_start_time s"
  "active_sources (save_pending_input s) = active_sources s"
  "session_ref (save_pending_input s) = session_ref s"
  "stream_ref (save_pending_input s) = stream_ref s"
  "current_input (save_pending_input s) = []"
  "current_output (save_pending_input s) = current_output s"
  "session_id (save_pending_input s) = session_id s"
  "raf_id (save_pending_input s) = raf_id s"
  "open_input_contexts (save_pending_input s) = open_input_contexts s"
  "open_output_contexts (save_pending_input s) = open_output_contexts s"
  "live_streams (save_pending_input s) = live_streams s"
  "opened_channels (save_pending_input s) = opened_channels s"
  "mic_requests (save_pending_input s) = mic_requests s"
  "save_calls (save_pending_input s) = save_calls s @
       (if current_input s \<noteq> [] then [(User, current_input s, session_id s)] else [])"
  "store_writes (save_pending_input s) = store_writes s @
       (if js_trim (current_input s) = [] then []
        else [(User, js_trim (current_input s), session_id s)])"
  "started (save_pending_input s) = started s"
  "stopped (save_pending_input s) = stopped s"
  "next_id (save_pending_input s) = next_id s"
  by (auto simp: save_pending_input_def save_transcript_def Let_def js_trim_Nil)

lemma save_pending_output_fields:
  "status (save_pending_output s) = status s"
  "volume (save_pending_output s) = volume s"
  "is_speaking (save_pending_output s) = is_speaking s"
  "input_context_ref (save_pending_output s) = input_context_ref s"
  "output_context_ref (save_pending_output s) = output_context_ref s"
  "input_source_ref (save_pending_output s) = input_source_ref s"
  "processor_ref (save_pending_output s) = processor_ref s"
  "output_gain_node_ref (save_pending_output s) = output_gain_node_ref s"
  "analyzer_ref (save_pending_output s) = analyzer_ref s"
  "next_start_time (save_pending_output s) = next_start_time s"
  "active_sources (save_pending_output s) = active_sources s"
  "session_ref (save_pending_output s) = session_ref s"
  "stream_ref (save_pending_output s) = stream_ref s"
  "current_input (save_pending_output s) = current_input s"
  "current_output (save_pending_output s) = []"
  "session_id (save_pending_output s) = session_id s"
  "raf_id (save_pending_output s) = raf_id s"
  "open_input_contexts (save_pending_output s) = open_input_contexts s"
  "open_output_contexts (save_pending_output s) = open_output_contexts s"
  "live_streams (save_pending_output s) = live_streams s"
  "opened_channels (save_pending_output s) = opened_channels s"
  "mic_requests (save_pending_output s) = mic_requests s"
  "save_calls (save_pending_output s) = save_calls s @
       (if current_output s \<noteq> [] then [(Model, current_output s, session_id s)] else [])"
  "store_writes (save_pending_output s) = store_writes s @
       (if js_trim (current_output s) = [] then []
        else [(Model, js_trim (current_output s), session_id s)])"
  "started (save_pending_output s) = started s"
  "stopped (save_pending_output s) = stopped s"
  "next_id (save_pending_output s) = next_id s"
  by (auto simp: save_pending_output_def save_transcript_def Let_def js_trim_Nil)

lemma stop_all_sources_fields:
  "status (stop_all_sources s) = status s"
  "volume (stop_all_sources s) = volume s"
  "is_speaking (stop_all_sources s) = is_speaking s"
  "input_context_ref (stop_all_sources s) = input_context_ref s"
  "output_context_ref (stop_all_sources s) = output_context_ref s"
  "input_source_ref (stop_all_sources s) = input_source_ref s"
  "processor_ref (stop_all_sources s) = processor_ref s"
  "output_gain_node_ref (stop_all_sources s) = output_gain_node_ref s"
  "analyzer_ref (stop_all_sources s) = analyzer_ref s"
  "next_start_time (stop_all_sources s) = next_start_time s"
  "active_sources (stop_all_sources s) = []"
  "session_ref (stop_all_sources s) = session_ref s"
  "stream_ref (stop_all_sources s) = stream_ref s"
  "current_input (stop_all_sources s) = current_input s"
  "current_output (stop_all_sources s) = current_output s"
  "session_id (stop_all_sources s) = session_id s"
  "raf_id (stop_all_sources s) = raf_id s"
  "open_input_contexts (stop_all_sources s) = open_input_contexts s"
  "open_output_contexts (stop_all_sources s) = open_output_contexts s"
  "live_streams (stop_all_sources s) = live_streams s"
  "opened_channels (stop_all_sources s) = opened_channels s"
  "mic_requests (stop_all_sources s) = mic_requests s"
  "save_calls (stop_all_sources s) = save_calls s"
  "store_writes (stop_all_sources s) = store_writes s"
  "started (stop_all_sources s) = started s"
  "stopped (stop_all_sources s) = stopped s @ active_sources s"
  "next_id (stop_all_sources s) = next_id s"
  by (simp_all add: stop_all_sources_def)

lemma close_contexts_fields:
  "status (close_contexts s) = status s"
  "volume (close_contexts s) = volume s"
  "is_speaking (close_contexts s) = is_speaking s"
  "input_context_ref (close_contexts s) = input_context_ref s"
  "output_context_ref (close_contexts s) = output_context_ref s"
  "input_source_ref (close_contexts s) = input_source_ref s"
  "processor_ref (close_contexts s) = processor_ref s"
  "output_gain_node_ref (close_contexts s) = output_gain_node_ref s"
  "analyzer_ref (close_contexts s) = analyzer_ref s"
  "next_start_time (close_contexts s) = next_start_time s"
  "active_sources (close_contexts s) = active_sources s"
  "session_ref (close_contexts s) = session_ref s"
  "stream_ref (close_contexts s) = stream_ref s"
  "current_input (close_contexts s) = current_input s"
  "current_output (close_contexts s) = current_output s"
  "session_id (close_contexts s) = session_id s"
  "raf_id (close_contexts s) = raf_id s"
  "open_input_contexts (close_contexts s) = (case input_context_ref s of None \<Rightarrow> open_input_contexts s
       | Some c \<Rightarrow> removeAll c (open_input_contexts s))"
  "open_output_contexts (close_contexts s) = (case output_context_ref s of None \<Rightarrow> open_output_contexts s
       | Some c \<Rightarrow> removeAll c (open_output_contexts s))"
  "live_streams (close_contexts s) = live_streams s"
  "opened_channels (close_contexts s) = opened_channels s"
  "mic_requests (close_contexts s) = mic_requests s"
  "save_calls (close_contexts s) = save_calls s"
  "store_writes (close_contexts s) = store_writes s"
  "started (close_contexts s) = started s"
  "stopped (close_contexts s) = stopped s"
  "next_id (close_contexts s) = next_id s"
  by (simp_all add: close_contexts_def)

lemma stop_mic_stream_fields:
  "status (stop_mic_stream s) = status s"
  "volume (stop_mic_stream s) = volume s"
  "is_speaking (stop_mic_stream s) = is_speaking s"
  "input_context_ref (stop_mic_stream s) = input_context_ref s"
  "output_context_ref (stop_mic_stream s) = output_context_ref s"
  "input_source_ref (stop_mic_stream s) = input_source_ref s"
  "processor_ref (stop_mic_stream s) = processor_ref s"
  "output_gain_node_ref (stop_mic_stream s) = output_gain_node_ref s"
  "analyzer_ref (stop_mic_stream s) = analyzer_ref s"
  "next_start_time (stop_mic_stream s) = next_start_time s"
  "active_sources (stop_mic_stream s) = active_sources s"
  "session_ref (stop_mic_stream s) = session_ref s"
  "stream_ref (stop_mic_stream s) = None"
  "current_input (stop_mic_stream s) = current_input s"
  "current_output (stop_mic_stream s) = current_output s"
  "session_id (stop_mic_stream s) = session_id s"
  "raf_id (stop_mic_stream s) = raf_id s"
  "open_input_contexts (stop_mic_stream s) = open_input_contexts s"
  "open_output_contexts (stop_mic_stream s) = open_output_contexts s"
  "live_streams (stop_mic_stream s) = (case stream_ref s of None \<Rightarrow> live_streams s
       | Some c \<Rightarrow> removeAll c (live_streams s))"
  "opened_channels (stop_mic_stream s) = opened_channels s"
  "mic_requests (stop_mic_stream s) = mic_requests s"
  "save_calls (stop_mic_stream s) = save_calls s"
  "store_writes (stop_mic_stream s) = store_writes s"
  "started (stop_mic_stream s) = started s"
  "stopped (stop_mic_stream s) = stopped s"
  "next_id (stop_mic_stream s) = next_id s"
  by (simp_all add: stop_mic_stream_def split: option.splits)

lemmas teardown_fields = save_pending_input_fields save_pending_output_fields
  stop_all_sources_fields close_contexts_fields stop_mic_stream_fields

lemma cleanup_fields:
  "status (cleanup s) = Disconnected"
  "volume (cleanup s) = 0"
  "is_speaking (cleanup s) = False"
  "input_context_ref (cleanup s) = None"
  "output_context_ref (cleanup s) = None"
  "input_source_ref (cleanup s) = input_source_ref s"
  "processor_ref (cleanup s) = processor_ref s"
  "output_gain_node_ref (cleanup s) = output_gain_node_ref s"
  "analyzer_ref (cleanup s) = analyzer_ref s"
  "next_start_time (cleanup s) = next_start_time s"
  "active_sources (cleanup s) = []"
  "session_ref (cleanup s) = None"
  "stream_ref (cleanup s) = None"
  "current_input (cleanup s) = []"
  "current_output (cleanup s) = []"
  "session_id (cleanup s) = session_id s"
  "raf_id (cleanup s) = None"
  "open_input_contexts (cleanup s) = (case input_context_ref s of None \<Rightarrow> open_input_contexts s
       | Some c \<Rightarrow> removeAll c (open_input_contexts s))"
  "open_output_contexts (cleanup s) = (case output_context_ref s of None \<Rightarrow> open_output_contexts s
       | Some c \<Rightarrow> removeAll c (open_output_contexts s))"
  "live_streams (cleanup s) = (case stream_ref s of None \<Rightarrow> live_streams s
       | Some c \<Rightarrow> removeAll c (live_streams s))"
  "opened_channels (cleanup s) = opened_channels s"
  "mic_requests (cleanup s) = mic_requests s"
  "save_calls (cleanup s) = save_calls s @ pending_saves s"
  "store_writes (cleanup s) = store_writes s @ pending_writes s"
  "started (cleanup s) = started s"
  "stopped (cleanup s) = stopped s @ active_sources s"
  "next_id (cleanup s) = next_id s"
  by (simp_all add: cleanup_def Let_def teardown_fields pending_saves_def pending_writes_def
      split: option.splits)

lemma handle_transcription_fields:
  "status (handle_transcription m s) = status s"
  "volume (handle_transcription m s) = volume s"
  "is_speaking (handle_transcription m s) = is_speaking s"
  "input_context_ref (handle_transcription m s) = input_context_ref s"
  "output_context_ref (handle_transcription m s) = output_context_ref s"
  "input_source_ref (handle_transcription m s) = input_source_ref s"
  "processor_ref (handle_transcription m s) = processor_ref s"
  "output_gain_node_ref (handle_transcription m s) = output_gain_node_ref s"
  "analyzer_ref (handle_transcription m s) = analyzer_ref s"
  "next_start_time (handle_transcription m s) = next_start_time s"
  "active_sources (handle_transcription m s) = active_sources s"
  "session_ref (handle_transcription m s) = session_ref s"
  "stream_ref (handle_transcription m s) = stream_ref s"
  "current_input (handle_transcription m s) = current_input s @ text_of (input_transcription_text m)"
  "current_output (handle_transcription m s) = current_output s @ text_of (output_transcription_text m)"
  "session_id (handle_transcription m s) = session_id s"
  "raf_id (handle_transcription m s) = raf_id s"
  "open_input_contexts (handle_transcription m s) = open_input_contexts s"
  "open_output_contexts (handle_transcription m s) = open_output_contexts s"
  "live_streams (handle_transcription m s) = live_streams s"
  "opened_channels (handle_transcription m s) = opened_channels s"
  "mic_requests (handle_transcription m s) = mic_requests s"
  "save_calls (handle_transcription m s) = save_calls s"
  "store_writes (handle_transcription m s) = store_writes s"
  "started (handle_transcription m s) = started s"
  "stopped (handle_transcription m s) = stopped s"
  "next_id (handle_transcription m s) = next_id s"
  by (simp_all add: handle_transcription_def Let_def truthy_text_of)

lemma handle_turn_complete_fields:
  "status (handle_turn_complete s) = status s"
  "volume (handle_turn_complete s) = volume s"
  "is_speaking (handle_turn_complete s) = False"
  "input_context_ref (handle_turn_complete s) = input_context_ref s"
  "output_context_ref (handle_turn_complete s) = output_context_ref s"
  "input_source_ref (handle_turn_complete s) = input_source_ref s"
  "processor_ref (handle_turn_complete s) = processor_ref s"
  "output_gain_node_ref (handle_turn_complete s) = output_gain_node_ref s"
  "analyzer_ref (handle_turn_complete s) = analyzer_ref s"
  "next_start_time (handle_turn_complete s) = next_start_time s"
  "active_sources (handle_turn_complete s) = active_sources s"
  "session_ref (handle_turn_complete s) = session_ref s"
  "stream_ref (handle_turn_complete s) = stream_ref s"
  "current_input (handle_turn_complete s) = []"
  "current_output (handle_turn_complete s) = []"
  "session_id (handle_turn_complete s) = session_id s"
  "raf_id (handle_turn_complete s) = raf_id s"
  "open_input_contexts (handle_turn_complete s) = open_input_contexts s"
  "open_output_contexts (handle_turn_complete s) = open_output_contexts s"
  "live_streams (handle_turn_complete s) = live_streams s"
  "opened_channels (handle_turn_complete s) = opened_channels s"
  "mic_requests (handle_turn_complete s) = mic_requests s"
  "save_calls (handle_turn_complete s) = save_calls s @ pending_saves s"
  "store_writes (handle_turn_complete s) = store_writes s @ pending_writes s"
  "started (handle_turn_complete s) = started s"
  "stopped (handle_turn_complete s) = stopped s"
  "next_id (handle_turn_complete s) = next_id s"
  by (simp_all add: handle_turn_complete_def teardown_fields pending_saves_def
      pending_writes_def)

lemma handle_interruption_fields:
  "status (handle_interruption s) = status s"
  "volume (handle_interruption s) = volume s"
  "is_speaking (handle_interruption s) = False"
  "input_context_ref (handle_interruption s) = input_context_ref s"
  "output_context_ref (handle_interruption s) = output_context_ref s"
  "input_source_ref (handle_interruption s) = input_source_ref s"
  "processor_ref (handle_interruption s) = processor_ref s"
  "output_gain_node_ref (handle_interruption s) = output_gain_node_ref s"
  "analyzer_ref (handle_interruption s) = analyzer_ref s"
  "next_start_time (handle_interruption s) = 0"
  "active_sources (handle_interruption s) = []"
  "session_ref (handle_interruption s) = session_ref s"
  "stream_ref (handle_interruption s) = stream_ref s"
  "current_input (handle_interruption s) = current_input s"
  "current_output (handle_interruption s) = []"
  "session_id (handle_interruption s) = session_id s"
  "raf_id (handle_interruption s) = raf_id s"
  "open_input_contexts (handle_interruption s) = open_input_contexts s"
  "open_output_contexts (handle_interruption s) = open_output_contexts s"
  "live_streams (handle_interruption s) = live_streams s"
  "opened_channels (handle_interruption s) = opened_channels s"
  "mic_requests (handle_interruption s) = mic_requests s"
  "save_calls (handle_interruption s) = save_calls s @
       (if current_output s = [] then []
        else [(Model, current_output s @ '' [INTERRUPTED]'', session_id s)])"
  "store_writes (handle_interruption s) = store_writes s @
       (if current_output s = [] then []
        else [(Model, js_trim (current_output s @ '' [INTERRUPTED]''), session_id s)])"
  "started (handle_interruption s) = started s"
  "stopped (handle_interruption s) = stopped s @ active_sources s"
  "next_id (handle_interruption s) = next_id s"
  by (simp_all add: handle_interruption_def stop_all_sources_fields save_transcript_def Let_def
      js_trim_marker)

lemma begin_audio_fields:
  "status (begin_audio now s) = status s"
  "volume (begin_audio now s) = volume s"
  "is_speaking (begin_audio now s) = True"
  "input_context_ref (begin_audio now s) = input_context_ref s"
  "output_context_ref (begin_audio now s) = output_context_ref s"
  "input_source_ref (begin_audio now s) = input_source_ref s"
  "processor_ref (begin_audio now s) = processor_ref s"
  "output_gain_node_ref (begin_audio now s) = output_gain_node_ref s"
  "analyzer_ref (begin_audio now s) = analyzer_ref s"
  "next_start_time (begin_audio now s) = max (next_start_time s) now"
  "active_sources (begin_audio now s) = active_sources s"
  "session_ref (begin_audio now s) = session_ref s"
  "stream_ref (begin_audio now s) = stream_ref s"
  "current_input (begin_audio now s) = current_input s"
  "current_output (begin_audio now s) = current_output s"
  "session_id (begin_audio now s) = session_id s"
  "raf_id (begin_audio now s) = raf_id s"
  "open_input_contexts (begin_audio now s) = open_input_contexts s"
  "open_output_contexts (begin_audio now s) = open_output_contexts s"
  "live_streams (begin_audio now s) = live_streams s"
  "opened_channels (begin_audio now s) = opened_channels s"
  "mic_requests (begin_audio now s) = mic_requests s"
  "save_calls (begin_audio now s) = save_calls s"
  "store_writes (begin_audio now s) = store_writes s"
  "started (begin_audio now s) = started s"
  "stopped (begin_audio now s) = stopped s"
  "next_id (begin_audio now s) = next_id s"
  by (simp_all add: begin_audio_def Let_def)

lemma finish_audio_fields:
  "status (finish_audio d s) = status s"
  "volume (finish_audio d s) = volume s"
  "is_speaking (finish_audio d s) = is_speaking s"
  "input_context_ref (finish_audio d s) = input_context_ref s"
  "output_context_ref (finish_audio d s) = output_context_ref s"
  "input_source_ref (finish_audio d s) = input_source_ref s"
  "processor_ref (finish_audio d s) = processor_ref s"
  "output_gain_node_ref (finish_audio d s) = output_gain_node_ref s"
  "analyzer_ref (finish_audio d s) = analyzer_ref s"
  "next_start_time (finish_audio d s) = next_start_time s + d"
  "active_sources (finish_audio d s) = active_sources s @ [next_id s]"
  "session_ref (finish_audio d s) = session_ref s"
  "stream_ref (finish_audio d s) = stream_ref s"
  "current_input (finish_audio d s) = current_input s"
  "current_output (finish_audio d s) = current_output s"
  "session_id (finish_audio d s) = session_id s"
  "raf_id (finish_audio d s) = raf_id s"
  "open_input_contexts (finish_audio d s) = open_input_contexts s"
  "open_output_contexts (finish_audio d s) = open_output_contexts s"
  "live_streams (finish_audio d s) = live_streams s"
  "opened_channels (finish_audio d s) = opened_channels s"
  "mic_requests (finish_audio d s) = mic_requests s"
  "save_calls (finish_audio d s) = save_calls s"
  "store_writes (finish_audio d s) = store_writes s"
  "started (finish_audio d s) = started s @
       [\<lparr>source_id = next_id s, start_at = next_start_time s, duration = d\<rparr>]"
  "stopped (finish_audio d s) = stopped s"
  "next_id (finish_audio d s) = Suc (next_id s)"
  by (simp_all add: finish_audio_def)

lemma onended_fields:
  "status (onended src s) = status s"
  "volume (onended src s) = volume s"
  "is_speaking (onended src s) = (if removeAll src (active_sources s) = [] then False else is_speaking s)"
  "input_context_ref (onended src s) = input_context_ref s"
  "output_context_ref (onended src s) = output_context_ref s"
  "input_source_ref (onended src s) = input_source_ref s"
  "processor_ref (onended src s) = processor_ref s"
  "output_gain_node_ref (onended src s) = output_gain_node_ref s"
  "analyzer_ref (onended src s) = analyzer_ref s"
  "next_start_time (onended src s) = next_start_time s"
  "active_sources (onended src s) = removeAll src (active_sources s)"
  "session_ref (onended src s) = session_ref s"
  "stream_ref (onended src s) = stream_ref s"
  "current_input (onended src s) = current_input s"
  "current_output (onended src s) = current_output s"
  "session_id (onended src s) = session_id s"
  "raf_id (onended src s) = raf_id s"
  "open_input_contexts (onended src s) = open_input_contexts s"
  "open_output_contexts (onended src s) = open_output_contexts s"
  "live_streams (onended src s) = live_streams s"
  "opened_channels (onended src s) = opened_channels s"
  "mic_requests (onended src s) = mic_requests s"
  "save_calls (onended src s) = save_calls s"
  "store_writes (onended src s) = store_writes s"
  "started (onended src s) = started s"
  "stopped (onended src s) = stopped s"
  "next_id (onended src s) = next_id s"
  by (simp_all add: onended_def Let_def)

lemma teardown_more:
  "hook_state.more (save_pending_input s) = hook_state.more s"
  "hook_state.more (save_pending_output s) = hook_state.more s"
  "hook_state.more (stop_all_sources s) = hook_state.more s"
  "hook_state.more (close_contexts s) = hook_state.more s"
  "hook_state.more (stop_mic_stream s) = hook_state.more s"
  by (simp_all add: save_pending_input_def save_pending_output_def save_transcript_def
      stop_all_sources_def close_contexts_def stop_mic_stream_def Let_def
      split: option.splits)

lemma cleanup_more: "hook_state.more (cleanup s) = hook_state.more s"
  by (simp add: cleanup_def Let_def teardown_more)

lemmas connect_fields = create_input_context_fields create_output_chain_fields
  store_mic_stream_fields open_channel_fields onopen_fields

lemmas message_fields = handle_transcription_fields handle_turn_complete_fields
  handle_interruption_fields begin_audio_fields finish_audio_fields

lemmas handler_defs = onmessage_def onmessage_sync_def onmessage_resume_def Let_def

section \<open>The two ways through connect, and the sample runs\<close>

lemma connect_failure:
  assumes "truthy (api_key env)"
    and "\<not> (input_context_ok env \<and> output_context_ok env \<and> microphone_ok env)"
  shows "connect env s =
     connect_failed
       (if \<not> input_context_ok env
        then s\<lparr>session_id := random_uuid env, status := Connecting\<rparr>
        else if \<not> output_context_ok env
        then create_input_context (s\<lparr>session_id := random_uuid env, status := Connecting\<rparr>)
        else (create_output_chain (analyser_average env)
               (create_input_context (s\<lparr>session_id := random_uuid env, status := Connecting\<rparr>)))
             \<lparr>mic_requests :=
                Suc (mic_requests (create_output_chain (analyser_average env)
                  (create_input_context
                     (s\<lparr>session_id := random_uuid env, status := Connecting\<rparr>))))\<rparr>)"
  using assms by (auto simp: connect_def connect_begin_def connect_resume_def Let_def)


lemma connect_success:
  assumes "truthy (api_key env)"
    and "input_context_ok env" and "output_context_ok env" and "microphone_ok env"
  shows "connect env s =
     open_channel (store_mic_stream
       ((create_output_chain (analyser_average env)
          (create_input_context (s\<lparr>session_id := random_uuid env, status := Connecting\<rparr>)))
        \<lparr>mic_requests :=
            Suc (mic_requests (create_output_chain (analyser_average env)
              (create_input_context
                 (s\<lparr>session_id := random_uuid env, status := Connecting\<rparr>))))\<rparr>))"
  using assms by (simp add: connect_def connect_begin_def connect_resume_def Let_def)

lemma granted:
  "truthy (api_key granted_env)" "input_context_ok granted_env"
  "output_context_ok granted_env" "microphone_ok granted_env"
  "random_uuid granted_env = ''session-1''" "analyser_average granted_env = 0"
  by (simp_all add: granted_env_def truthy_def)


lemma live_session_fields:
  "status live_session = Connected"
  "is_speaking live_session = False"
  "output_context_ref live_session = Some 1"
  "output_gain_node_ref live_session = Some 4"
  "next_start_time live_session = 0"
  "active_sources live_session = []"
  "current_input live_session = []"
  "current_output live_session = []"
  "session_id live_session = ''session-1''"
  "open_input_contexts live_session = [0]"
  "open_output_contexts live_session = [1]"
  "live_streams live_session = [5]"
  "opened_channels live_session = [6]"
  "mic_requests live_session = 1"
  "save_calls live_session = []"
  "store_writes live_session = []"
  "started live_session = []"
  "stopped live_session = []"
  "next_id live_session = 9"
  unfolding live_session_def connect_success [OF granted(1-4)]
  by (simp_all add: connect_fields granted fresh_hook_def init_state_def)

lemma sample_messages:
  "truthy (inline_data chatter)" "\<not> interrupted chatter" "\<not> turn_complete chatter"
  "text_of (input_transcription_text chatter) = ''hello''"
  "text_of (output_transcription_text chatter) = ''hi there''"
  "text_of (inline_data chatter) = ''AAAA''"
  "truthy (inline_data barge_in)" "interrupted barge_in" "\<not> turn_complete barge_in"
  "text_of (input_transcription_text barge_in) = []"
  "text_of (output_transcription_text barge_in) = '' and''"
  "truthy (inline_data turn_end_with_audio)" "\<not> interrupted turn_end_with_audio"
  "turn_complete turn_end_with_audio"
  "text_of (input_transcription_text turn_end_with_audio) = []"
  "text_of (output_transcription_text turn_end_with_audio) = []"
  "text_of (inline_data turn_end_with_audio) = ''BBBB''"
  "truthy (inline_data (audio_only ''AAAA''))" "truthy (inline_data (audio_only ''CCCC''))"
  "\<not> interrupted (audio_only b)" "\<not> turn_complete (audio_only b)"
  "text_of (input_transcription_text (audio_only b)) = []"
  "text_of (output_transcription_text (audio_only b)) = []"
  "text_of (inline_data (audio_only b)) = b"
  "sample_decode ''AAAA'' = Some (1 / 2)" "sample_decode ''BBBB'' = Some (1 / 2)"
  "sample_decode ''CCCC'' = Some (3 / 10)"
  by (simp_all add: chatter_def barge_in_def turn_end_with_audio_def audio_only_def
      sample_decode_def truthy_def text_of_def)

lemma murmur_sample:
  "truthy (inline_data murmur)" "\<not> interrupted murmur" "\<not> turn_complete murmur"
  "text_of (input_transcription_text murmur) = '' ''"
  "text_of (output_transcription_text murmur) = ''hi there''"
  "text_of (inline_data murmur) = ''AAAA''"
  by (simp_all add: murmur_def chatter_def truthy_def text_of_def)

lemma turn_end_barge_in_sample:
  "truthy (inline_data turn_end_barge_in)" "interrupted turn_end_barge_in"
  "turn_complete turn_end_barge_in"
  "text_of (input_transcription_text turn_end_barge_in) = []"
  "text_of (output_transcription_text turn_end_barge_in) = '' and''"
  by (simp_all add: turn_end_barge_in_def barge_in_def truthy_def text_of_def)

lemma sample_trims:
  "js_trim ''hello'' = ''hello''" "js_trim ''hi there'' = ''hi there''"
  "js_trim '' '' = []"
  "js_trim ''hi there and'' = ''hi there and''"
  "js_trim ''hi there and [INTERRUPTED]'' = ''hi there and [INTERRUPTED]''"
  by (simp_all add: js_trim_def is_js_space_def)

lemma talking_session_fields:
  "status talking_session = Connected"
  "is_speaking talking_session = True"
  "output_context_ref talking_session = Some 1"
  "output_gain_node_ref talking_session = Some 4"
  "next_start_time talking_session = 1 / 2"
  "active_sources talking_session = [9]"
  "current_input talking_session = ''hello''"
  "current_output talking_session = ''hi there''"
  "session_id talking_session = ''session-1''"
  "open_input_contexts talking_session = [0]"
  "open_output_contexts talking_session = [1]"
  "live_streams talking_session = [5]"
  "save_calls talking_session = []"
  "store_writes talking_session = []"
  "started talking_session = [\<lparr>source_id = 9, start_at = 0, duration = 1 / 2\<rparr>]"
  "stopped talking_session = []"
  "next_id talking_session = 10"
  by (simp_all add: talking_session_def handler_defs message_fields audio_ready_def
      sample_messages live_session_fields)

lemma murmur_session_fields:
  "output_context_ref murmur_session = Some 1"
  "output_gain_node_ref murmur_session = Some 4"
  "current_input murmur_session = '' ''"
  "current_output murmur_session = ''hi there''"
  "session_id murmur_session = ''session-1''"
  "save_calls murmur_session = []"
  "store_writes murmur_session = []"
  by (simp_all add: murmur_session_def handler_defs message_fields audio_ready_def
      sample_messages murmur_sample live_session_fields)

section \<open>Interruption\<close>

text \<open>
  C1, refuted as stated: a message that sets the interrupted flag, carries inline audio
  and also sets turn-complete, arriving while the model text is not empty. The
  turn-completion step runs first and writes the model text as it is; the interruption
  step then finds the buffer empty. No document carries the marker.
\<close>

theorem interruption_after_turn_end_unmarked:
  "interrupted turn_end_barge_in \<and> truthy (inline_data turn_end_barge_in)
   \<and> current_output talking_session = ''hi there''
   \<and> store_writes (onmessage 1 sample_decode turn_end_barge_in talking_session) =
       [(User, ''hello'', ''session-1''), (Model, ''hi there and'', ''session-1'')]"
  by (simp add: handler_defs message_fields pending_writes_def turn_end_barge_in_sample
      sample_trims talking_session_fields)

text \<open>
  C1, as the code has it. For every message that sets the interrupted flag and carries
  inline audio: when the message does not also set turn-complete, the model text (with
  the fragment the message brought) is written with \<open>'' [INTERRUPTED]''\<close> appended when
  it is not empty, trimmed by the persistence module; when the message also sets
  turn-complete, the turn-completion step has written both buffers without the marker
  and the interruption step writes nothing. In both cases the model buffer is empty
  afterwards, every active source is stopped and the set cleared, the cursor is 0, the
  speaking flag is off, nothing is scheduled, and the handler ends without asking for
  the audio to be decoded, so nothing of it can be scheduled later either.
\<close>

theorem interruption_discards_audio:
  assumes "interrupted m" and "truthy (inline_data m)"
  shows "store_writes (onmessage now decode m s) =
           store_writes s @
           (if turn_complete m
            then (if js_trim (current_input s @ text_of (input_transcription_text m)) = []
                  then []
                  else [(User, js_trim (current_input s @ text_of (input_transcription_text m)),
                         session_id s)]) @
                 (if js_trim (current_output s @ text_of (output_transcription_text m)) = []
                  then []
                  else [(Model,
                         js_trim (current_output s @ text_of (output_transcription_text m)),
                         session_id s)])
            else (if current_output s @ text_of (output_transcription_text m) = [] then []
                  else [(Model,
                         js_trim ((current_output s @ text_of (output_transcription_text m))
                           @ '' [INTERRUPTED]''),
                         session_id s)]))
       \<and> current_output (onmessage now decode m s) = []
       \<and> stopped (onmessage now decode m s) = stopped s @ active_sources s
       \<and> active_sources (onmessage now decode m s) = []
       \<and> next_start_time (onmessage now decode m s) = 0
       \<and> is_speaking (onmessage now decode m s) = False
       \<and> started (onmessage now decode m s) = started s
       \<and> next_id (onmessage now decode m s) = next_id s
       \<and> onmessage_sync now m s = (onmessage now decode m s, None)"
  using assms
  by (simp add: handler_defs message_fields pending_writes_def js_trim_Nil)

theorem interruption_discards_audio_witness:
  "interrupted barge_in \<and> truthy (inline_data barge_in)
   \<and> store_writes (onmessage 1 sample_decode barge_in talking_session) =
       [(Model, ''hi there and [INTERRUPTED]'', ''session-1'')]
   \<and> current_output (onmessage 1 sample_decode barge_in talking_session) = []
   \<and> stopped (onmessage 1 sample_decode barge_in talking_session) = [9]
   \<and> active_sources (onmessage 1 sample_decode barge_in talking_session) = []
   \<and> next_start_time (onmessage 1 sample_decode barge_in talking_session) = 0
   \<and> is_speaking (onmessage 1 sample_decode barge_in talking_session) = False
   \<and> started (onmessage 1 sample_decode barge_in talking_session) =
       [\<lparr>source_id = 9, start_at = 0, duration = 1 / 2\<rparr>]
   \<and> snd (onmessage_sync 1 barge_in talking_session) = None"
  using interruption_discards_audio [of barge_in 1 sample_decode talking_session]
  by (simp add: sample_messages sample_trims talking_session_fields)

section \<open>The playback schedule\<close>

text \<open>
  One event that is not an interrupting message either schedules nothing and does not
  move the cursor back, or is the end of a decoding and schedules exactly one segment
  at the cursor, leaving the cursor at the end of that segment.
\<close>

lemma step_schedule:
  assumes "\<not> interrupts e"
  shows "(started (step e s) = started s \<and> next_start_time s \<le> next_start_time (step e s))
         \<or> (started (step e s) =
               started s @ [\<lparr>source_id = next_id s, start_at = next_start_time s,
                             duration = decoded_duration e\<rparr>]
             \<and> next_start_time (step e s) = next_start_time s + decoded_duration e)"
proof (cases e)
  case (Message now m)
  with assms show ?thesis
    by (simp add: onmessage_sync_def Let_def message_fields)
next
  case (Decoded now d)
  then show ?thesis
    by (simp add: onmessage_resume_def message_fields)
next
  case (Ended src)
  then show ?thesis by (simp add: onended_fields)
next
  case Disconnect
  then show ?thesis by (simp add: cleanup_fields)
qed

text \<open>
  The invariant of a run without interruption: the segments it adds follow one another
  without overlap, the first of them starts no earlier than the cursor the run began
  with, and the cursor the run ends with is no earlier than the end of the last of them.
\<close>

lemma run_schedule:
  assumes "\<forall>e \<in> set es. \<not> interrupts e"
  shows "\<exists>new. started (run_events es s) = started s @ new
           \<and> successively (\<lambda>a b. start_at a + duration a \<le> start_at b) new
           \<and> (new \<noteq> [] \<longrightarrow> next_start_time s \<le> start_at (hd new))
           \<and> (if new = [] then next_start_time s
               else start_at (last new) + duration (last new))
              \<le> next_start_time (run_events es s)"
  using assms
proof (induction es arbitrary: s)
  case Nil
  show ?case by simp
next
  case (Cons e es)
  let ?s1 = "step e s"
  let ?P = "\<lambda>a b. start_at a + duration a \<le> start_at b"
  from Cons.prems have ni: "\<not> interrupts e"
    and rest: "\<forall>e \<in> set es. \<not> interrupts e" by simp_all
  from Cons.IH [OF rest, of ?s1] obtain new2 where
    st2: "started (run_events es ?s1) = started ?s1 @ new2"
    and suc2: "successively ?P new2"
    and hd2: "new2 \<noteq> [] \<longrightarrow> next_start_time ?s1 \<le> start_at (hd new2)"
    and end2: "(if new2 = [] then next_start_time ?s1
                else start_at (last new2) + duration (last new2))
               \<le> next_start_time (run_events es ?s1)"
    by blast
  from step_schedule [OF ni, of s]
  show ?case
  proof (elim disjE conjE)
    assume same: "started ?s1 = started s"
      and mono: "next_start_time s \<le> next_start_time ?s1"
    show ?thesis
      using st2 suc2 hd2 end2 same mono
      by (intro exI [of _ new2]) (auto split: if_splits)
  next
    let ?seg = "\<lparr>source_id = next_id s, start_at = next_start_time s,
                  duration = decoded_duration e\<rparr>"
    assume one: "started ?s1 = started s @ [?seg]"
      and cur: "next_start_time ?s1 = next_start_time s + decoded_duration e"
    show ?thesis
      using st2 suc2 hd2 end2 one cur
      by (intro exI [of _ "?seg # new2"]) (auto simp: successively_Cons split: if_splits)
  qed
qed

text \<open>
  With durations that are not negative the cursor never moves back in such a run, and
  every segment the run adds starts no earlier than the cursor the run began with.
\<close>

lemma run_after_cursor:
  assumes "\<forall>e \<in> set es. \<not> interrupts e" and "\<forall>e \<in> set es. 0 \<le> decoded_duration e"
  shows "\<exists>new. started (run_events es s) = started s @ new
           \<and> (\<forall>seg \<in> set new. next_start_time s \<le> start_at seg)
           \<and> next_start_time s \<le> next_start_time (run_events es s)"
  using assms
proof (induction es arbitrary: s)
  case Nil
  show ?case by simp
next
  case (Cons e es)
  let ?s1 = "step e s"
  from Cons.prems have ni: "\<not> interrupts e" and nn: "0 \<le> decoded_duration e"
    and rest: "\<forall>e \<in> set es. \<not> interrupts e" "\<forall>e \<in> set es. 0 \<le> decoded_duration e"
    by simp_all
  from Cons.IH [OF rest, of ?s1] obtain new2 where
    st2: "started (run_events es ?s1) = started ?s1 @ new2"
    and ge2: "\<forall>seg \<in> set new2. next_start_time ?s1 \<le> start_at seg"
    and mono2: "next_start_time ?s1 \<le> next_start_time (run_events es ?s1)"
    by blast
  from step_schedule [OF ni, of s]
  show ?case
  proof (elim disjE conjE)
    assume same: "started ?s1 = started s"
      and mono: "next_start_time s \<le> next_start_time ?s1"
    show ?thesis
      using st2 ge2 mono2 same mono
      by (intro exI [of _ new2]) force
  next
    let ?seg = "\<lparr>source_id = next_id s, start_at = next_start_time s,
                  duration = decoded_duration e\<rparr>"
    assume one: "started ?s1 = started s @ [?seg]"
      and cur: "next_start_time ?s1 = next_start_time s + decoded_duration e"
    show ?thesis
      using st2 ge2 mono2 one cur nn
      by (intro exI [of _ "?seg # new2"]) force
  qed
qed

text \<open>A handler that goes on to wait for decoding leaves the cursor at or after its clock reading.\<close>

lemma waiting_handler_cursor:
  assumes "snd (onmessage_sync now m t) \<noteq> None"
  shows "started (fst (onmessage_sync now m t)) = started t"
    and "now \<le> next_start_time (fst (onmessage_sync now m t))"
  using assms
  by (simp_all add: onmessage_sync_def Let_def message_fields split: if_splits)

text \<open>
  C2, refuted as stated, on three runs. In the first a message with audio is handled
  at clock 2 and its decoding ends at clock 2.1: the segment scheduled at that moment
  starts at 2, before the clock. In the second an interruption is handled while the
  decoding is under way: the segment is scheduled to start at 0. In the third a segment
  that starts at 0 and lasts half a second is followed, after an interruption, by a
  segment that starts at a quarter of a second.
\<close>

theorem schedule_behind_clock_or_overlapping:
  "started (run_events [Message 2 (audio_only ''AAAA''), Decoded (21 / 10) (1 / 2)]
      live_session) = [\<lparr>source_id = 9, start_at = 2, duration = 1 / 2\<rparr>]
   \<and> (2::real) < 21 / 10
   \<and> started (run_events [Message 2 (audio_only ''AAAA''), Message (41 / 20) barge_in,
        Decoded (21 / 10) (1 / 2)] live_session) =
       [\<lparr>source_id = 9, start_at = 0, duration = 1 / 2\<rparr>]
   \<and> started (run_events [Message (1 / 5) barge_in, Message (1 / 4) (audio_only ''CCCC''),
        Decoded (1 / 4) (3 / 10)] talking_session) =
       [\<lparr>source_id = 9, start_at = 0, duration = 1 / 2\<rparr>,
        \<lparr>source_id = 10, start_at = 1 / 4, duration = 3 / 10\<rparr>]
   \<and> (1 / 4 :: real) < 0 + 1 / 2"
  by (simp add: onmessage_sync_def onmessage_resume_def Let_def message_fields audio_ready_def
      sample_messages live_session_fields talking_session_fields)

text \<open>
  C2, as the code has it. Take any state and any run of events (messages, ends of
  decodings in any order, ends of sources, disconnects) in which no message is an
  interruption. The run only appends to the list of scheduled segments, and in what it
  appends every segment starts no earlier than the start of the one before plus that
  one's duration. If moreover no decoded duration is negative, then from the moment a
  handler has taken the clock reading \<open>now\<close> and waits for its audio to be decoded,
  every segment scheduled in the run, its own included, starts no earlier than \<open>now\<close>.
  The start is measured against the reading the handler took before decoding, not
  against the clock at the moment the segment is scheduled.
\<close>

theorem segments_back_to_back:
  assumes "\<forall>e \<in> set es. \<not> interrupts e"
    and "\<forall>e \<in> set es. 0 \<le> decoded_duration e"
    and "snd (onmessage_sync now m t) \<noteq> None"
  shows "take (length (started s)) (started (run_events es s)) = started s
       \<and> successively (\<lambda>a b. start_at a + duration a \<le> start_at b)
           (drop (length (started s)) (started (run_events es s)))
       \<and> (\<forall>seg \<in> set (drop (length (started t))
                          (started (run_events (Message now m # es) t))).
            now \<le> start_at seg)"
proof -
  from run_schedule [OF assms(1), of s] obtain new where
    "started (run_events es s) = started s @ new"
    "successively (\<lambda>a b. start_at a + duration a \<le> start_at b) new"
    by blast
  moreover
  let ?t1 = "fst (onmessage_sync now m t)"
  from run_after_cursor [OF assms(1,2), of ?t1] obtain new' where
    st: "started (run_events es ?t1) = started ?t1 @ new'"
    and ge: "\<forall>seg \<in> set new'. next_start_time ?t1 \<le> start_at seg"
    by blast
  from waiting_handler_cursor [OF assms(3)]
  have same: "started ?t1 = started t" and cur: "now \<le> next_start_time ?t1" by simp_all
  have "\<forall>seg \<in> set (drop (length (started t))
                         (started (run_events (Message now m # es) t))).
            now \<le> start_at seg"
    using st ge same cur by force
  ultimately show ?thesis by simp
qed

lemma two_segments_run:
  "started (run_events
      [Message 2 (audio_only ''AAAA''), Message (41 / 20) (audio_only ''CCCC''),
       Decoded (21 / 10) (1 / 2), Decoded (11 / 5) (3 / 10)] talking_session) =
     [\<lparr>source_id = 9, start_at = 0, duration = 1 / 2\<rparr>,
      \<lparr>source_id = 10, start_at = 41 / 20, duration = 1 / 2\<rparr>,
      \<lparr>source_id = 11, start_at = 51 / 20, duration = 3 / 10\<rparr>]"
  "started (run_events
      [Message 1 (audio_only ''AAAA''),
       Message 2 (audio_only ''AAAA''), Message (41 / 20) (audio_only ''CCCC''),
       Decoded (21 / 10) (1 / 2), Decoded (11 / 5) (3 / 10)] talking_session) =
     [\<lparr>source_id = 9, start_at = 0, duration = 1 / 2\<rparr>,
      \<lparr>source_id = 10, start_at = 41 / 20, duration = 1 / 2\<rparr>,
      \<lparr>source_id = 11, start_at = 51 / 20, duration = 3 / 10\<rparr>]"
  "snd (onmessage_sync 1 (audio_only ''AAAA'') talking_session) = Some ''AAAA''"
  by (simp_all add: onmessage_sync_def onmessage_resume_def Let_def message_fields
      audio_ready_def sample_messages talking_session_fields)

theorem segments_back_to_back_witness:
  "drop (length (started talking_session))
     (started (run_events
        [Message 2 (audio_only ''AAAA''), Message (41 / 20) (audio_only ''CCCC''),
         Decoded (21 / 10) (1 / 2), Decoded (11 / 5) (3 / 10)] talking_session)) =
     [\<lparr>source_id = 10, start_at = 41 / 20, duration = 1 / 2\<rparr>,
      \<lparr>source_id = 11, start_at = 51 / 20, duration = 3 / 10\<rparr>]
   \<and> successively (\<lambda>a b. start_at a + duration a \<le> start_at b)
       [\<lparr>source_id = 10, start_at = 41 / 20, duration = 1 / 2\<rparr>,
        \<lparr>source_id = 11, start_at = 51 / 20, duration = 3 / 10\<rparr>]
   \<and> snd (onmessage_sync 1 (audio_only ''AAAA'') talking_session) = Some ''AAAA''
   \<and> drop (length (started talking_session))
       (started (run_events
          [Message 1 (audio_only ''AAAA''),
           Message 2 (audio_only ''AAAA''), Message (41 / 20) (audio_only ''CCCC''),
           Decoded (21 / 10) (1 / 2), Decoded (11 / 5) (3 / 10)] talking_session)) =
       [\<lparr>source_id = 10, start_at = 41 / 20, duration = 1 / 2\<rparr>,
        \<lparr>source_id = 11, start_at = 51 / 20, duration = 3 / 10\<rparr>]
   \<and> (1::real) \<le> 41 / 20 \<and> (1::real) \<le> 51 / 20"
proof -
  let ?es = "[Message 2 (audio_only ''AAAA''), Message (41 / 20) (audio_only ''CCCC''),
              Decoded (21 / 10) (1 / 2), Decoded (11 / 5) (3 / 10)]"
  have a1: "\<forall>e \<in> set ?es. \<not> interrupts e" by (simp add: sample_messages)
  have a2: "\<forall>e \<in> set ?es. 0 \<le> decoded_duration e" by simp
  have a3: "snd (onmessage_sync 1 (audio_only ''AAAA'') talking_session) \<noteq> None"
    by (simp add: two_segments_run)
  from segments_back_to_back [OF a1 a2 a3, of talking_session]
  show ?thesis
    unfolding two_segments_run by (simp add: talking_session_fields)
qed

section \<open>After an interruption\<close>



section \<open>Channel failure\<close>

text \<open>
  C3, refuted as stated: in a connected session with text pending in both buffers,
  with a live microphone stream, an open output context and a source playing,
  \<open>onerror\<close> sets the status to error and does nothing else. No call of
  \<open>saveTranscript\<close> is issued, both buffers keep their text, and nothing is released.
\<close>

theorem channel_failure_keeps_buffers:
  "status (onerror talking_session) = Error
   \<and> save_calls (onerror talking_session) = []
   \<and> current_input (onerror talking_session) = ''hello''
   \<and> current_output (onerror talking_session) = ''hi there''
   \<and> live_streams (onerror talking_session) = [5]
   \<and> open_output_contexts (onerror talking_session) = [1]
   \<and> active_sources (onerror talking_session) = [9]"
  by (simp add: onerror_def talking_session_fields)

text \<open>
  C3, as the code has it: when the channel reports a failure the status becomes error
  and that is all the handler does. The save log, both transcript buffers, the live
  streams, the open contexts and the active sources are as before. The pending text is
  not lost: a \<open>disconnect()\<close> after the failure leaves exactly the state that
  \<open>disconnect()\<close> without the failure would have left, so it saves both buffers.
\<close>

theorem channel_failure_sets_status_only:
  "status (onerror s) = Error
   \<and> save_calls (onerror s) = save_calls s
   \<and> current_input (onerror s) = current_input s
   \<and> current_output (onerror s) = current_output s
   \<and> live_streams (onerror s) = live_streams s
   \<and> open_input_contexts (onerror s) = open_input_contexts s
   \<and> open_output_contexts (onerror s) = open_output_contexts s
   \<and> active_sources (onerror s) = active_sources s
   \<and> cleanup (onerror s) = cleanup s
   \<and> save_calls (cleanup (onerror s)) = save_calls s @ pending_saves s"
proof -
  have "cleanup (onerror s) = cleanup s"
    by (rule hook_state.equality)
       (simp_all add: cleanup_fields cleanup_more pending_saves_def pending_writes_def
          onerror_def split: option.splits)
  then show ?thesis by (simp add: onerror_def cleanup_fields)
qed

section \<open>Failure while connecting\<close>

text \<open>
  C5. The credential is present, both audio contexts are created and the microphone is
  refused. The \<open>catch\<close> block sets the status to error and calls \<open>cleanup\<close>, whose
  last statements set the status to disconnected: the status after the failed
  \<open>connect()\<close> is disconnected, not error. The teardown itself has run: the microphone
  was requested once, no stream is live, no context is open, no channel was opened.
\<close>

theorem failed_connect_ends_disconnected:
  "status (connect mic_denied_env fresh_hook) = Disconnected
   \<and> status (connect mic_denied_env fresh_hook) \<noteq> Error
   \<and> mic_requests (connect mic_denied_env fresh_hook) = 1
   \<and> live_streams (connect mic_denied_env fresh_hook) = []
   \<and> open_input_contexts (connect mic_denied_env fresh_hook) = []
   \<and> open_output_contexts (connect mic_denied_env fresh_hook) = []
   \<and> opened_channels (connect mic_denied_env fresh_hook) = []"
proof -
  have key: "truthy (api_key mic_denied_env)"
    and mic: "\<not> (input_context_ok mic_denied_env \<and> output_context_ok mic_denied_env
               \<and> microphone_ok mic_denied_env)"
    and ctx: "input_context_ok mic_denied_env" "output_context_ok mic_denied_env"
    by (simp_all add: mic_denied_env_def granted_env_def truthy_def)
  show ?thesis
    unfolding connect_failure [OF key mic]
    by (simp add: ctx connect_failed_def cleanup_fields connect_fields fresh_hook_def
        init_state_def)
qed

section \<open>One session at a time\<close>





section \<open>Turn completion\<close>

text \<open>
  C7, refuted as stated, on two runs. In the first a turn-complete message that also
  carries audio arrives in a connected session with text in both buffers: the audio
  step of the same handler runs after the turn-completion step and sets the speaking
  flag again, so it is on afterwards. In the second the user buffer holds a single
  space: \<open>saveTranscript\<close> is called twice but returns without writing for the user
  text, so one document is written, not two.
\<close>

theorem turn_complete_speaking_or_one_write:
  "turn_complete turn_end_with_audio
   \<and> current_input talking_session = ''hello''
   \<and> current_output talking_session = ''hi there''
   \<and> store_writes (onmessage 1 sample_decode turn_end_with_audio talking_session) =
       [(User, ''hello'', ''session-1''), (Model, ''hi there'', ''session-1'')]
   \<and> is_speaking (onmessage 1 sample_decode turn_end_with_audio talking_session) = True
   \<and> current_input murmur_session = '' ''
   \<and> current_output murmur_session = ''hi there''
   \<and> save_calls (onmessage 1 sample_decode turn_end_with_audio murmur_session) =
       [(User, '' '', ''session-1''), (Model, ''hi there'', ''session-1'')]
   \<and> store_writes (onmessage 1 sample_decode turn_end_with_audio murmur_session) =
       [(Model, ''hi there'', ''session-1'')]"
  by (simp add: handler_defs message_fields audio_ready_def pending_saves_def
      pending_writes_def sample_messages sample_trims talking_session_fields
      murmur_session_fields)

text \<open>
  C7, as the code has it. When a turn-complete message arrives while both buffers are
  not empty, \<open>saveTranscript\<close> is called exactly twice, first with role user and then
  with role model, each with the session identifier and the buffer's text including the
  fragment the message itself brought. Each call writes one document, with the text
  trimmed, unless its text is all white space; so exactly two documents are written
  when both texts hold something other than white space. Both buffers are empty
  afterwards. The speaking flag is off afterwards, except when the message is not an
  interruption and carries audio while the output chain exists: then the audio step
  sets it.
\<close>

theorem turn_complete_flushes_both:
  assumes "turn_complete m" and "current_input s \<noteq> []" and "current_output s \<noteq> []"
  shows "save_calls (onmessage now decode m s) =
           save_calls s @
           [(User, current_input s @ text_of (input_transcription_text m), session_id s),
            (Model, current_output s @ text_of (output_transcription_text m), session_id s)]
       \<and> store_writes (onmessage now decode m s) =
           store_writes s @
           (if js_trim (current_input s @ text_of (input_transcription_text m)) = [] then []
            else [(User, js_trim (current_input s @ text_of (input_transcription_text m)),
                   session_id s)]) @
           (if js_trim (current_output s @ text_of (output_transcription_text m)) = [] then []
            else [(Model, js_trim (current_output s @ text_of (output_transcription_text m)),
                   session_id s)])
       \<and> current_input (onmessage now decode m s) = []
       \<and> current_output (onmessage now decode m s) = []
       \<and> is_speaking (onmessage now decode m s) =
           (\<not> interrupted m \<and> truthy (inline_data m) \<and> output_context_ref s \<noteq> None
            \<and> output_gain_node_ref s \<noteq> None)"
  using assms
  by (auto simp: handler_defs message_fields audio_ready_def pending_saves_def
      pending_writes_def split: option.splits)

theorem turn_complete_flushes_both_witness:
  "turn_complete (turn_end_with_audio\<lparr>inline_data := None\<rparr>)
   \<and> current_input talking_session \<noteq> [] \<and> current_output talking_session \<noteq> []
   \<and> save_calls (onmessage 1 sample_decode (turn_end_with_audio\<lparr>inline_data := None\<rparr>)
        talking_session) =
       [(User, ''hello'', ''session-1''), (Model, ''hi there'', ''session-1'')]
   \<and> store_writes (onmessage 1 sample_decode (turn_end_with_audio\<lparr>inline_data := None\<rparr>)
        talking_session) =
       [(User, ''hello'', ''session-1''), (Model, ''hi there'', ''session-1'')]
   \<and> current_input (onmessage 1 sample_decode (turn_end_with_audio\<lparr>inline_data := None\<rparr>)
        talking_session) = []
   \<and> current_output (onmessage 1 sample_decode (turn_end_with_audio\<lparr>inline_data := None\<rparr>)
        talking_session) = []
   \<and> is_speaking (onmessage 1 sample_decode (turn_end_with_audio\<lparr>inline_data := None\<rparr>)
        talking_session) = False"
  using turn_complete_flushes_both
    [of "turn_end_with_audio\<lparr>inline_data := None\<rparr>" talking_session 1 sample_decode]
  by (simp add: turn_end_with_audio_def truthy_def text_of_def talking_session_fields
      sample_trims)

section \<open>Missing credential\<close>

text \<open>
  C8. When \<open>process.env.API_KEY\<close> is absent or empty, \<open>connect\<close> sets the status to
  error and returns: the state is otherwise untouched, so the microphone is not
  requested, no channel is opened and nothing is acquired.
\<close>

theorem missing_credential_fails_fast:
  assumes "\<not> truthy (api_key env)"
  shows "connect env s = s\<lparr>status := Error\<rparr>
       \<and> status (connect env s) = Error
       \<and> mic_requests (connect env s) = mic_requests s
       \<and> opened_channels (connect env s) = opened_channels s
       \<and> live_streams (connect env s) = live_streams s
       \<and> open_input_contexts (connect env s) = open_input_contexts s
       \<and> open_output_contexts (connect env s) = open_output_contexts s"
  using assms by (simp add: connect_def connect_begin_def)

theorem missing_credential_fails_fast_witness:
  "\<not> truthy (api_key no_key_env)
   \<and> status (connect no_key_env fresh_hook) = Error
   \<and> mic_requests (connect no_key_env fresh_hook) = 0
   \<and> opened_channels (connect no_key_env fresh_hook) = []
   \<and> live_streams (connect no_key_env fresh_hook) = []"
  using missing_credential_fails_fast [of no_key_env fresh_hook]
  by (simp add: no_key_env_def granted_env_def truthy_def fresh_hook_def init_state_def)

section \<open>Disconnecting twice\<close>

text \<open>
  C9. \<open>cleanup\<close> has no failing branch, and a second call changes nothing: the state
  after two calls is the state after one. After a call the status is disconnected, both
  buffers and the set of active sources are empty, the volume is 0 and the speaking
  flag is off. On a hook that was never connected the call changes nothing at all.
\<close>

theorem disconnect_idempotent:
  "cleanup (cleanup s) = cleanup s
   \<and> status (cleanup s) = Disconnected
   \<and> current_input (cleanup s) = [] \<and> current_output (cleanup s) = []
   \<and> active_sources (cleanup s) = []
   \<and> volume (cleanup s) = 0 \<and> is_speaking (cleanup s) = False
   \<and> save_calls (cleanup (cleanup s)) = save_calls (cleanup s)
   \<and> cleanup (init_state uuid) = init_state uuid"
proof -
  have twice: "cleanup (cleanup s) = cleanup s"
    by (rule hook_state.equality)
       (simp_all add: cleanup_fields cleanup_more pending_saves_def pending_writes_def
          js_trim_Nil)
  have never: "cleanup (init_state uuid) = init_state uuid"
    by (rule hook_state.equality)
       (simp_all add: cleanup_fields cleanup_more pending_saves_def pending_writes_def
          js_trim_Nil init_state_def)
  show ?thesis
    using twice never by (simp add: cleanup_fields)
qed

section \<open>Order of the two writes\<close>




end
